theory Spec2Isabelle
  imports Complex_Main "HOL-Library.Word"
begin

section \<open>Python values and exceptions\<close>

text \<open>
  The services of the repository catch \<^verbatim>\<open>Exception\<close> around their bodies, so every
  raise of the source is a value here: a function that can raise returns \<open>exn + 'a\<close>,
  with \<open>Inl\<close> for the exception.
\<close>

datatype exn =
  TypeError | ValueError | AttributeError | ValidationError | OverflowError | LibraryError

text \<open>
  A Python \<^verbatim>\<open>float\<close>: a finite number, an infinity, or NaN. Finite values are
  modelled as exact reals; the constants the code compares against (0.05, 0.25, 0.02,
  1000, 2000, 0.6) and the sums of the weights 0.3 and 0.2 it builds are read as the
  decimal numbers written in the source.
\<close>

datatype pyfloat = Fin real | PosInf | NegInf | NaN

text \<open>\<open>float_lt_num v c\<close> is \<^verbatim>\<open>v < c\<close> and \<open>float_gt_num v c\<close> is \<^verbatim>\<open>v > c\<close>
  for a finite number \<open>c\<close>; every comparison with NaN is false.\<close>

fun float_lt_num :: "pyfloat \<Rightarrow> real \<Rightarrow> bool" where
  "float_lt_num (Fin x) c = (x < c)"
| "float_lt_num PosInf c = False"
| "float_lt_num NegInf c = True"
| "float_lt_num NaN c = False"

fun float_gt_num :: "pyfloat \<Rightarrow> real \<Rightarrow> bool" where
  "float_gt_num (Fin x) c = (x > c)"
| "float_gt_num PosInf c = True"
| "float_gt_num NegInf c = False"
| "float_gt_num NaN c = False"

text \<open>
  A value stored in an untyped \<^verbatim>\<open>dict\<close>: a number, or any other object
  (\<^verbatim>\<open>None\<close>, a string, a list), for which an ordering comparison with a
  number raises \<^verbatim>\<open>TypeError\<close>.
\<close>

datatype pyval = PyFloat pyfloat | PyOther

fun py_lt_num :: "pyval \<Rightarrow> real \<Rightarrow> exn + bool" where
  "py_lt_num (PyFloat v) c = Inr (float_lt_num v c)"
| "py_lt_num PyOther c = Inl TypeError"

fun py_gt_num :: "pyval \<Rightarrow> real \<Rightarrow> exn + bool" where
  "py_gt_num (PyFloat v) c = Inr (float_gt_num v c)"
| "py_gt_num PyOther c = Inl TypeError"

text \<open>The chained comparison \<^verbatim>\<open>lo < v < hi\<close>: \<^verbatim>\<open>lo < v\<close> first, and
  \<^verbatim>\<open>v < hi\<close> only when the first holds.\<close>

definition py_between :: "real \<Rightarrow> pyval \<Rightarrow> real \<Rightarrow> exn + bool" where
  "py_between lo v hi =
     (case py_gt_num v lo of
        Inl e \<Rightarrow> Inl e
      | Inr b \<Rightarrow> if b then py_lt_num v hi else Inr False)"

text \<open>\<^verbatim>\<open>d.get(key, default)\<close> on a dictionary.\<close>

definition dict_get :: "('k \<rightharpoonup> 'v) \<Rightarrow> 'k \<Rightarrow> 'v \<Rightarrow> 'v" where
  "dict_get d k dflt = (case d k of None \<Rightarrow> dflt | Some v \<Rightarrow> v)"


section \<open>app/services/audio_processor.py\<close>

type_synonym features = "string \<rightharpoonup> pyval"

record AudioProcessor =
  eating_confidence_threshold :: real
  zcr_threshold :: real
  energy_threshold :: real

text \<open>\<^verbatim>\<open>AudioProcessor.__init__\<close>, which builds the global instance.\<close>

definition audio_processor :: AudioProcessor where
  "audio_processor =
     \<lparr>eating_confidence_threshold = 0.6, zcr_threshold = 0.15, energy_threshold = 0.02\<rparr>"

record AudioAnalysisResult =
  eating_detected :: bool
  confidence :: real
  audio_features :: "features option"

text \<open>Sequencing inside a \<^verbatim>\<open>try\<close> block: the first raise ends the block.\<close>

definition and_then :: "exn + 'a \<Rightarrow> ('a \<Rightarrow> exn + 'b) \<Rightarrow> exn + 'b" where
  "and_then m f = (case m of Inl e \<Rightarrow> Inl e | Inr x \<Rightarrow> f x)"

text \<open>\<^verbatim>\<open>if cond: confidence_factors.append(w)\<close>.\<close>

definition append_if :: "bool \<Rightarrow> real \<Rightarrow> real list \<Rightarrow> real list" where
  "append_if cond w confidence_factors =
     (if cond then confidence_factors @ [w] else confidence_factors)"

text \<open>The body of the \<^verbatim>\<open>try\<close> block of \<^verbatim>\<open>_detect_eating\<close>: four checks in
  the order of the source, each reading its feature with default 0.\<close>

definition detect_eating_try :: "AudioProcessor \<Rightarrow> features \<Rightarrow> exn + (bool \<times> real)" where
  "detect_eating_try self features =
     and_then (py_between 0.05 (dict_get features ''zcr_mean'' (PyFloat (Fin 0))) 0.25)
       (\<lambda>c1. and_then
          (py_gt_num (dict_get features ''rms_mean'' (PyFloat (Fin 0))) (energy_threshold self))
       (\<lambda>c2. and_then
          (py_gt_num (dict_get features ''spectral_centroid'' (PyFloat (Fin 0))) 1000)
       (\<lambda>c3. and_then
          (py_gt_num (dict_get features ''spectral_rolloff'' (PyFloat (Fin 0))) 2000)
       (\<lambda>c4.
          (let confidence_factors =
                 append_if c4 0.2 (append_if c3 0.2 (append_if c2 0.3 (append_if c1 0.3 [])));
               confidence = sum_list confidence_factors;
               eating_detected = (confidence \<ge> eating_confidence_threshold self)
           in Inr (eating_detected, confidence))))))"

text \<open>\<^verbatim>\<open>_detect_eating\<close>: the empty mapping and any raise give \<^verbatim>\<open>(False, 0.0)\<close>.\<close>

definition detect_eating :: "AudioProcessor \<Rightarrow> features \<Rightarrow> bool \<times> real" where
  "detect_eating self features =
     (if features = Map.empty then (False, 0)
      else case detect_eating_try self features of
             Inl e \<Rightarrow> (False, 0)
           | Inr r \<Rightarrow> r)"

text \<open>
  \<^verbatim>\<open>np.frombuffer(audio_bytes, dtype=np.int16)\<close>: two bytes per sample, low byte
  first; a buffer of odd length raises \<^verbatim>\<open>ValueError\<close>.
\<close>

fun frombuffer :: "8 word list \<Rightarrow> exn + 16 word list" where
  "frombuffer [] = Inr []"
| "frombuffer [b] = Inl ValueError"
| "frombuffer (lo # hi # bs) =
     (case frombuffer bs of
        Inl e \<Rightarrow> Inl e
      | Inr ws \<Rightarrow> Inr (word_cat hi lo # ws))"

text \<open>
  The five numbers \<^verbatim>\<open>_extract_features\<close> computes with librosa and numpy. That
  computation is library code outside the repository: it is the parameter \<open>librosa\<close>
  of the functions below, which returns the five means or raises.
\<close>

record measures =
  zcr_mean :: pyfloat
  zcr_std :: pyfloat
  rms_mean :: pyfloat
  spectral_centroid_mean :: pyfloat
  spectral_rolloff_mean :: pyfloat

type_synonym librosa = "real list \<Rightarrow> int \<Rightarrow> exn + measures"

definition extract_features :: "librosa \<Rightarrow> real list \<Rightarrow> int \<Rightarrow> features" where
  "extract_features librosa audio sr =
     (case librosa audio sr of
        Inl e \<Rightarrow> Map.empty
      | Inr m \<Rightarrow>
          [''zcr_mean'' \<mapsto> PyFloat (zcr_mean m),
           ''zcr_std'' \<mapsto> PyFloat (zcr_std m),
           ''rms_mean'' \<mapsto> PyFloat (rms_mean m),
           ''spectral_centroid'' \<mapsto> PyFloat (spectral_centroid_mean m),
           ''spectral_rolloff'' \<mapsto> PyFloat (spectral_rolloff_mean m)])"

text \<open>The \<^verbatim>\<open>try\<close> block of \<^verbatim>\<open>analyze_audio\<close>: the samples are divided by
  32768, and \<open>sample_rate\<close> is \<open>None\<close> when the caller leaves the default of 16000.\<close>

definition normalize_pcm :: "16 word list \<Rightarrow> real list" where
  "normalize_pcm samples = map (\<lambda>w. real_of_int (sint w) / 32768) samples"

definition rate :: "int option \<Rightarrow> int" where
  "rate sample_rate = (case sample_rate of None \<Rightarrow> 16000 | Some r \<Rightarrow> r)"

definition analyze_audio_try ::
  "librosa \<Rightarrow> AudioProcessor \<Rightarrow> 8 word list \<Rightarrow> int option \<Rightarrow> exn + AudioAnalysisResult" where
  "analyze_audio_try librosa self audio_bytes sample_rate =
     and_then (frombuffer audio_bytes)
       (\<lambda>samples.
          (let audio_data = normalize_pcm samples;
               features = extract_features librosa audio_data (rate sample_rate);
               r = detect_eating self features
           in Inr \<lparr>eating_detected = fst r, confidence = snd r,
                    audio_features = Some features\<rparr>))"

definition analyze_audio ::
  "librosa \<Rightarrow> AudioProcessor \<Rightarrow> 8 word list \<Rightarrow> int option \<Rightarrow> AudioAnalysisResult" where
  "analyze_audio librosa self audio_bytes sample_rate =
     (case analyze_audio_try librosa self audio_bytes sample_rate of
        Inl e \<Rightarrow> \<lparr>eating_detected = False, confidence = 0, audio_features = None\<rparr>
      | Inr r \<Rightarrow> r)"


section \<open>config.py, app/database.py and app/services/feedback_manager.py\<close>

text \<open>The settings the feedback manager reads, with the defaults of \<^verbatim>\<open>config.py\<close>.\<close>

record Settings =
  feedback_cooldown_seconds :: int
  min_meal_duration_seconds :: int

definition settings :: Settings where
  "settings = \<lparr>feedback_cooldown_seconds = 300, min_meal_duration_seconds = 10\<rparr>"

text \<open>
  A \<^verbatim>\<open>datetime\<close> is a whole number of microseconds on the UTC time line, and it is
  either naive (without \<^verbatim>\<open>tzinfo\<close>), as \<^verbatim>\<open>datetime.utcnow()\<close> returns it, or
  timezone-aware, as Firestore returns the timestamps it has stored. The difference of
  two of the same kind is a \<^verbatim>\<open>timedelta\<close>, again in microseconds; subtracting an
  aware one from a naive one, or the reverse, raises \<^verbatim>\<open>TypeError\<close>.
  \<^verbatim>\<open>total_seconds()\<close> divides by \<open>10^6\<close>.
\<close>

datatype datetime = Naive int | Aware int

type_synonym timedelta = int

fun datetime_sub :: "datetime \<Rightarrow> datetime \<Rightarrow> exn + timedelta" where
  "datetime_sub (Naive a) (Naive b) = Inr (a - b)"
| "datetime_sub (Aware a) (Aware b) = Inr (a - b)"
| "datetime_sub (Naive a) (Aware b) = Inl TypeError"
| "datetime_sub (Aware a) (Naive b) = Inl TypeError"

definition seconds :: "int \<Rightarrow> timedelta" where
  "seconds n = n * 1000000"

definition total_seconds :: "timedelta \<Rightarrow> real" where
  "total_seconds td = real_of_int td / 1000000"

text \<open>
  \<^verbatim>\<open>Database.get_last_feedback_time\<close>. The Firestore query (the documents of the user
  with \<^verbatim>\<open>cue_sent\<close> set, newest first, at most one) is outside the repository: it is
  the parameter \<open>query\<close>, which raises or returns, for each document, its
  \<^verbatim>\<open>timestamp\<close> field when it has one.
\<close>

type_synonym firestore = "string \<Rightarrow> exn + datetime option list"

definition get_last_feedback_time :: "firestore \<Rightarrow> string \<Rightarrow> datetime option" where
  "get_last_feedback_time query uid =
     (case query uid of
        Inl e \<Rightarrow> None
      | Inr [] \<Rightarrow> None
      | Inr (data # docs) \<Rightarrow> data)"

record FeedbackManager =
  cooldown_seconds :: int
  messages :: "string \<rightharpoonup> string"

text \<open>\<^verbatim>\<open>FeedbackManager.__init__\<close>; the emoji of the messages are written as their
  UTF-8 bytes.\<close>

definition feedback_manager_init :: "Settings \<Rightarrow> FeedbackManager" where
  "feedback_manager_init cfg =
     \<lparr>cooldown_seconds = feedback_cooldown_seconds cfg,
      messages =
        [''slow_down'' \<mapsto>
           ''Take a deep breath '' @ [CHR 0xF0, CHR 0x9F, CHR 0x8C, CHR 0xBF]
           @ '' Eating slowly helps digestion and mindfulness.'',
         ''mindful'' \<mapsto>
           ''Great mindful eating! '' @ [CHR 0xF0, CHR 0x9F, CHR 0xA7, CHR 0x98]
           @ '' Keep up the awareness.'',
         ''stressed'' \<mapsto>
           ''Notice any tension? '' @ [CHR 0xF0, CHR 0x9F, CHR 0x92, CHR 0x86]
           @ '' Try taking a pause between bites.'',
         ''rushed'' \<mapsto>
           ''Slow down '' @ [CHR 0xE2, CHR 0x8F, CHR 0xB8, CHR 0xEF, CHR 0xB8, CHR 0x8F]
           @ '' Enjoy each bite and savor your meal.'']\<rparr>"

definition feedback_manager :: FeedbackManager where
  "feedback_manager = feedback_manager_init settings"

text \<open>
  \<^verbatim>\<open>_can_send_feedback\<close>. The history lookup \<^verbatim>\<open>db.get_last_feedback_time\<close> is the
  parameter \<open>lookup\<close>, which may raise; \<open>now\<close> is the time that the naive
  \<^verbatim>\<open>datetime.utcnow()\<close> returns during the call. The subtraction is inside the
  \<^verbatim>\<open>try\<close> block, so its \<^verbatim>\<open>TypeError\<close> also ends in \<^verbatim>\<open>return True\<close>.
\<close>

type_synonym history = "string \<Rightarrow> exn + datetime option"

definition can_send_feedback_try :: "FeedbackManager \<Rightarrow> history \<Rightarrow> int \<Rightarrow> string \<Rightarrow> exn + bool" where
  "can_send_feedback_try self lookup now uid =
     and_then (lookup uid)
       (\<lambda>last_feedback_time.
          case last_feedback_time of
            None \<Rightarrow> Inr True
          | Some t \<Rightarrow>
              and_then (datetime_sub (Naive now) t)
                (\<lambda>time_since_last.
                   Inr (total_seconds time_since_last \<ge> real_of_int (cooldown_seconds self))))"

definition can_send_feedback :: "FeedbackManager \<Rightarrow> history \<Rightarrow> int \<Rightarrow> string \<Rightarrow> bool" where
  "can_send_feedback self lookup now uid =
     (case can_send_feedback_try self lookup now uid of
        Inl e \<Rightarrow> True
      | Inr permitted \<Rightarrow> permitted)"

text \<open>The lookup as the repository wires it: \<^verbatim>\<open>db\<close> is the \<^verbatim>\<open>Database\<close> above.\<close>

definition db :: "firestore \<Rightarrow> history" where
  "db query uid = Inr (get_last_feedback_time query uid)"

text \<open>
  \<^verbatim>\<open>OmiClient.send_notification\<close>: the HTTP POST is the parameter \<open>post\<close>, which
  raises or returns the status code.
\<close>

type_synonym omi = "string \<Rightarrow> string \<Rightarrow> exn + int"

definition send_notification :: "omi \<Rightarrow> string \<Rightarrow> string \<Rightarrow> bool" where
  "send_notification post uid message =
     (case post uid message of Inl e \<Rightarrow> False | Inr status_code \<Rightarrow> status_code = 200)"

text \<open>
  \<^verbatim>\<open>send_feedback\<close>. The state is the list of notifications handed to the Omi client
  so far; the result is the success flag and the new list. The default of
  \<^verbatim>\<open>self.messages.get\<close> is \<^verbatim>\<open>self.messages["slow_down"]\<close>, whose
  \<^verbatim>\<open>KeyError\<close> the \<^verbatim>\<open>except\<close> clause turns into \<^verbatim>\<open>False\<close>.
\<close>

definition send_feedback ::
  "FeedbackManager \<Rightarrow> history \<Rightarrow> omi \<Rightarrow> int \<Rightarrow> string \<Rightarrow> string \<Rightarrow> bool
   \<Rightarrow> (string \<times> string) list \<Rightarrow> bool \<times> (string \<times> string) list" where
  "send_feedback self lookup post now uid feedback_type force outbox =
     (if \<not> force \<and> \<not> can_send_feedback self lookup now uid then (False, outbox)
      else
        (case messages self ''slow_down'' of
           None \<Rightarrow> (False, outbox)
         | Some slow_down \<Rightarrow>
             (let message = dict_get (messages self) feedback_type slow_down
              in (send_notification post uid message, outbox @ [(uid, message)]))))"

text \<open>
  The conversion of a Python \<^verbatim>\<open>int\<close> to a \<^verbatim>\<open>float\<close>, which \<^verbatim>\<open>int * float\<close>
  applies to the integer: the nearest double, ties to the even significand of 53 bits,
  and \<^verbatim>\<open>OverflowError\<close> when that is \<open>2^1024\<close> or more. The result is the exact value
  of the double.
\<close>

fun bit_length :: "nat \<Rightarrow> nat" where
  "bit_length n = (if n = 0 then 0 else Suc (bit_length (n div 2)))"

declare bit_length.simps [simp del]

definition int_to_float :: "int \<Rightarrow> exn + real" where
  "int_to_float n =
     (let m = nat \<bar>n\<bar>;
          e = bit_length m - 53;
          q = m div 2 ^ e;
          r = m mod 2 ^ e;
          rounded = (if 2 * r > 2 ^ e \<or> (2 * r = 2 ^ e \<and> odd q) then q + 1 else q);
          v = rounded * 2 ^ e
      in if v \<ge> 2 ^ 1024 then Inl OverflowError
         else Inr (real_of_int (sgn n * int v)))"

text \<open>
  \<^verbatim>\<open>should_send_rushed_feedback\<close>; \<open>expected_duration\<close> is \<open>None\<close> when the caller
  leaves the default of 900. The product \<^verbatim>\<open>expected_duration * 0.5\<close> converts the
  integer to a float first and halves it, which is exact; the comparison of the integer
  \<^verbatim>\<open>meal_duration\<close> with that float is exact in Python. Nothing catches the
  \<^verbatim>\<open>OverflowError\<close> of the conversion.
\<close>

definition should_send_rushed_feedback :: "int \<Rightarrow> int option \<Rightarrow> exn + bool" where
  "should_send_rushed_feedback meal_duration expected_duration =
     (let expected = (case expected_duration of None \<Rightarrow> 900 | Some d \<Rightarrow> d)
      in and_then (int_to_float expected)
           (\<lambda>x. Inr (real_of_int meal_duration < x * 0.5)))"


section \<open>app/models.py and app/services/sentiment_analyzer.py\<close>

datatype SentimentType = CALM | STRESSED | NEUTRAL | RUSHED | MINDFUL

text \<open>What \<^verbatim>\<open>json.loads\<close> returns; an object is the list of its items.\<close>

datatype json =
    JNull
  | JBool bool
  | JNum pyfloat
  | JStr string
  | JArr "json list"
  | JObj "(string \<times> json) list"

text \<open>\<^verbatim>\<open>ReflectionAnalysis\<close>; the fields \<^verbatim>\<open>text\<close> and \<^verbatim>\<open>keywords\<close> are
  \<open>reflection_text\<close> and \<open>found_keywords\<close> here.\<close>

record ReflectionAnalysis =
  reflection_text :: string
  sentiment :: SentimentType
  is_reflective :: bool
  found_keywords :: "string list"
  tone_indicators :: "string \<rightharpoonup> pyfloat"

text \<open>
  The constructor of \<^verbatim>\<open>ReflectionAnalysis\<close> validates \<^verbatim>\<open>tone_indicators\<close> against
  \<^verbatim>\<open>dict[str, float]\<close>: the value must be an object and each of its values must be
  accepted as a float. Which single values pydantic accepts as a float is library
  behaviour outside the repository: it is the parameter \<open>as_float\<close>.
\<close>

type_synonym pydantic = "json \<Rightarrow> pyfloat option"

fun validate_items :: "pydantic \<Rightarrow> (string \<times> json) list \<Rightarrow> (string \<times> pyfloat) list option" where
  "validate_items as_float [] = Some []"
| "validate_items as_float ((k, v) # items) =
     (case as_float v of
        None \<Rightarrow> None
      | Some x \<Rightarrow>
          (case validate_items as_float items of
             None \<Rightarrow> None
           | Some r \<Rightarrow> Some ((k, x) # r)))"

fun validate_tone :: "pydantic \<Rightarrow> json \<Rightarrow> exn + (string \<rightharpoonup> pyfloat)" where
  "validate_tone as_float (JObj items) =
     (case validate_items as_float items of
        None \<Rightarrow> Inl ValidationError
      | Some r \<Rightarrow> Inr (map_of r))"
| "validate_tone as_float other = Inl ValidationError"

definition new_ReflectionAnalysis ::
  "pydantic \<Rightarrow> string \<Rightarrow> SentimentType \<Rightarrow> bool \<Rightarrow> string list \<Rightarrow> json
   \<Rightarrow> exn + ReflectionAnalysis" where
  "new_ReflectionAnalysis as_float txt snt reflective kws tone =
     and_then (validate_tone as_float tone)
       (\<lambda>t. Inr \<lparr>reflection_text = txt, sentiment = snt, is_reflective = reflective,
                 found_keywords = kws, tone_indicators = t\<rparr>)"

text \<open>The strictest reading of pydantic, which accepts JSON numbers only.\<close>

fun strict_float :: pydantic where
  "strict_float (JNum x) = Some x"
| "strict_float other = None"

text \<open>\<^verbatim>\<open>str.lower()\<close> on ASCII text: the letters A to Z change, every other
  character stays.\<close>

definition char_lower :: "char \<Rightarrow> char" where
  "char_lower c =
     (case map_of (zip ''ABCDEFGHIJKLMNOPQRSTUVWXYZ'' ''abcdefghijklmnopqrstuvwxyz'') c of
        None \<Rightarrow> c
      | Some l \<Rightarrow> l)"

definition lower :: "string \<Rightarrow> string" where
  "lower s = map char_lower s"

text \<open>\<^verbatim>\<open>kw in s\<close> on strings: \<open>kw\<close> starts at some position of \<open>s\<close>.\<close>

fun startswith :: "string \<Rightarrow> string \<Rightarrow> bool" where
  "startswith s [] = True"
| "startswith [] (k # kw) = False"
| "startswith (c # s) (k # kw) = (c = k \<and> startswith s kw)"

fun str_in :: "string \<Rightarrow> string \<Rightarrow> bool" where
  "str_in kw [] = (kw = [])"
| "str_in kw (c # s) = (startswith (c # s) kw \<or> str_in kw s)"

text \<open>
  The request \<^verbatim>\<open>_analyze_with_llm\<close> sends, and the client. What comes back from
  \<^verbatim>\<open>self.client.chat.completions.create\<close>, \<^verbatim>\<open>response.choices[0].message.content\<close>
  and \<^verbatim>\<open>json.loads\<close> is outside the repository: the parameter \<open>client\<close> gives, for a
  request, the exception one of the three raises or the parsed JSON value.
\<close>

record request =
  model :: string
  system_content :: string
  user_content :: string
  temperature :: real
  max_tokens :: nat

type_synonym openai = "request \<Rightarrow> exn + json"

record SentimentAnalyzer =
  client :: openai
  reflection_keywords :: "string list"

text \<open>\<^verbatim>\<open>SentimentAnalyzer.__init__\<close>.\<close>

definition sentiment_analyzer :: "openai \<Rightarrow> SentimentAnalyzer" where
  "sentiment_analyzer c =
     \<lparr>client = c,
      reflection_keywords =
        [''feel'', ''felt'', ''feeling'',
         ''was'', ''were'', ''seemed'',
         ''too fast'', ''too slow'', ''rushed'',
         ''mindful'', ''aware'', ''noticed'',
         ''enjoyed'', ''satisfying'', ''satisfied'',
         ''stressed'', ''anxious'', ''calm'']\<rparr>"

text \<open>\<^verbatim>\<open>_is_reflective\<close> (the record field has the name \<open>is_reflective\<close>).\<close>

definition text_is_reflective :: "SentimentAnalyzer \<Rightarrow> string \<Rightarrow> bool" where
  "text_is_reflective self txt =
     (let text_lower = lower txt
      in list_ex (\<lambda>keyword. str_in keyword text_lower) (reflection_keywords self))"

text \<open>\<^verbatim>\<open>_extract_keywords\<close>.\<close>

definition extract_keywords :: "SentimentAnalyzer \<Rightarrow> string \<Rightarrow> string list" where
  "extract_keywords self txt =
     (let text_lower = lower txt
      in filter (\<lambda>kw. str_in kw text_lower) (reflection_keywords self))"

text \<open>\<^verbatim>\<open>result.get(key, default)\<close> on the parsed reply: only an object has
  \<^verbatim>\<open>get\<close>.\<close>

fun json_get :: "json \<Rightarrow> string \<Rightarrow> json \<Rightarrow> exn + json" where
  "json_get (JObj items) key dflt = Inr (dict_get (map_of items) key dflt)"
| "json_get other key dflt = Inl AttributeError"

text \<open>\<^verbatim>\<open>_parse_sentiment\<close>: only a string has \<^verbatim>\<open>lower\<close>.\<close>

fun parse_sentiment :: "json \<Rightarrow> exn + SentimentType" where
  "parse_sentiment (JStr sentiment_str) =
     Inr (dict_get
            (map_of [(''calm'', CALM), (''stressed'', STRESSED), (''neutral'', NEUTRAL),
                     (''rushed'', RUSHED), (''mindful'', MINDFUL)])
            (lower sentiment_str) NEUTRAL)"
| "parse_sentiment other = Inl AttributeError"

definition dq :: string where
  "dq = [CHR 0x22]"

definition nl :: string where
  "nl = [CHR 0x0A]"

definition prompt :: "string \<Rightarrow> string" where
  "prompt txt =
     ''Analyze this meal reflection and determine:'' @ nl @
     ''1. The overall sentiment (calm, stressed, neutral, rushed, or mindful)'' @ nl @
     ''2. Tone indicators (stressed_score, mindful_score, rushed_score from 0-1)'' @ nl @
     nl @
     ''Reflection: '' @ dq @ txt @ dq @ nl @
     nl @
     ''Respond in JSON format:'' @ nl @
     ''{'' @ nl @
     ''    '' @ dq @ ''sentiment'' @ dq @ '': '' @ dq
       @ ''calm|stressed|neutral|rushed|mindful'' @ dq @ '','' @ nl @
     ''    '' @ dq @ ''tone_indicators'' @ dq @ '': {'' @ nl @
     ''        '' @ dq @ ''stressed_score'' @ dq @ '': 0.0,'' @ nl @
     ''        '' @ dq @ ''mindful_score'' @ dq @ '': 0.0,'' @ nl @
     ''        '' @ dq @ ''rushed_score'' @ dq @ '': 0.0'' @ nl @
     ''    }'' @ nl @
     ''}''"

definition llm_request :: "string \<Rightarrow> request" where
  "llm_request txt =
     \<lparr>model = ''gpt-3.5-turbo'',
      system_content =
        ''You are a helpful assistant that analyzes meal reflections for emotional tone and mindfulness.'',
      user_content = prompt txt,
      temperature = 0.3,
      max_tokens = 150\<rparr>"

text \<open>The \<^verbatim>\<open>try\<close> block of \<^verbatim>\<open>_analyze_with_llm\<close>, after the request is sent.\<close>

definition analyze_with_llm_try :: "SentimentAnalyzer \<Rightarrow> string \<Rightarrow> exn + (SentimentType \<times> json)" where
  "analyze_with_llm_try self txt =
     and_then (client self (llm_request txt))
       (\<lambda>result. and_then (json_get result ''sentiment'' (JStr ''neutral''))
       (\<lambda>sentiment_str. and_then (parse_sentiment sentiment_str)
       (\<lambda>snt. and_then (json_get result ''tone_indicators'' (JObj []))
       (\<lambda>tone. Inr (snt, tone)))))"

text \<open>
  \<^verbatim>\<open>_analyze_with_llm\<close>. The state is the list of requests sent to the language
  model so far: the call sends one, and any raise gives \<^verbatim>\<open>(NEUTRAL, {})\<close>.
\<close>

definition analyze_with_llm ::
  "SentimentAnalyzer \<Rightarrow> string \<Rightarrow> request list \<Rightarrow> (SentimentType \<times> json) \<times> request list" where
  "analyze_with_llm self txt sent =
     (case analyze_with_llm_try self txt of
        Inl e \<Rightarrow> ((NEUTRAL, JObj []), sent @ [llm_request txt])
      | Inr r \<Rightarrow> (r, sent @ [llm_request txt]))"

text \<open>The analysis both early exits of \<^verbatim>\<open>analyze_reflection\<close> return.\<close>

definition default_analysis :: "string \<Rightarrow> ReflectionAnalysis" where
  "default_analysis txt =
     \<lparr>reflection_text = txt, sentiment = NEUTRAL, is_reflective = False,
      found_keywords = [], tone_indicators = Map.empty\<rparr>"

text \<open>The \<^verbatim>\<open>try\<close> block of \<^verbatim>\<open>analyze_reflection\<close>.\<close>

definition analyze_reflection_try ::
  "pydantic \<Rightarrow> SentimentAnalyzer \<Rightarrow> string \<Rightarrow> request list
   \<Rightarrow> (exn + ReflectionAnalysis) \<times> request list" where
  "analyze_reflection_try as_float self txt sent =
     (let reflective = text_is_reflective self txt
      in if \<not> reflective then (new_ReflectionAnalysis as_float txt NEUTRAL False [] (JObj []), sent)
         else
           (let (r, sent') = analyze_with_llm self txt sent;
                kws = extract_keywords self txt
            in (new_ReflectionAnalysis as_float txt (fst r) reflective kws (snd r), sent')))"

text \<open>\<^verbatim>\<open>analyze_reflection\<close>: the analysis and the requests sent.\<close>

definition analyze_reflection ::
  "pydantic \<Rightarrow> SentimentAnalyzer \<Rightarrow> string \<Rightarrow> request list
   \<Rightarrow> ReflectionAnalysis \<times> request list" where
  "analyze_reflection as_float self txt sent =
     (case analyze_reflection_try as_float self txt sent of
        (Inl e, sent') \<Rightarrow> (default_analysis txt, sent')
      | (Inr analysis, sent') \<Rightarrow> (analysis, sent'))"


section \<open>The specification's wording and worked inputs\<close>

text \<open>
  A feature mapping as the specification types it, from feature names to floats, seen
  as the dictionary \<^verbatim>\<open>_detect_eating\<close> receives.
\<close>

definition float_features :: "(string \<rightharpoonup> pyfloat) \<Rightarrow> features" where
  "float_features f = (\<lambda>name. map_option PyFloat (f name))"

text \<open>
  The specification's table of the eating detector: the weight of each predicate that
  the features satisfy, a missing feature counting as 0.
\<close>

definition satisfied_weights :: "(string \<rightharpoonup> pyfloat) \<Rightarrow> real" where
  "satisfied_weights f =
     (if float_gt_num (dict_get f ''zcr_mean'' (Fin 0)) 0.05
         \<and> float_lt_num (dict_get f ''zcr_mean'' (Fin 0)) 0.25 then 0.3 else 0)
     + (if float_gt_num (dict_get f ''rms_mean'' (Fin 0)) 0.02 then 0.3 else 0)
     + (if float_gt_num (dict_get f ''spectral_centroid'' (Fin 0)) 1000 then 0.2 else 0)
     + (if float_gt_num (dict_get f ''spectral_rolloff'' (Fin 0)) 2000 then 0.2 else 0)"

text \<open>The feature values in the middle of all four ranges.\<close>

definition midpoint_features :: "string \<rightharpoonup> pyfloat" where
  "midpoint_features =
     [''zcr_mean'' \<mapsto> Fin 0.15, ''rms_mean'' \<mapsto> Fin 0.05,
      ''spectral_centroid'' \<mapsto> Fin 1500, ''spectral_rolloff'' \<mapsto> Fin 2500]"

text \<open>A library call that raises, for the feature computation and for the language
  model; a history with one feedback at a given time, and one that raises.\<close>

definition librosa_raises :: librosa where
  "librosa_raises audio sr = Inl LibraryError"

definition client_raises :: openai where
  "client_raises req = Inl LibraryError"

text \<open>A language model whose reply parses, with a tone that is not a mapping.\<close>

definition client_bad_tone :: openai where
  "client_bad_tone req =
     Inr (JObj [(''sentiment'', JStr ''calm''), (''tone_indicators'', JStr ''high'')])"

definition last_feedback_at :: "datetime \<Rightarrow> history" where
  "last_feedback_at t uid = Inr (Some t)"

definition no_feedback_yet :: history where
  "no_feedback_yet uid = Inr None"

definition lookup_raises :: history where
  "lookup_raises uid = Inl LibraryError"

definition query_raises :: firestore where
  "query_raises uid = Inl LibraryError"

text \<open>A Firestore collection holding one feedback event, with the given timestamp.\<close>

definition stored_feedback :: "datetime \<Rightarrow> firestore" where
  "stored_feedback t uid = Inr [Some t]"

text \<open>\<open>occurs_in kw s\<close>: some stretch of \<open>s\<close> equals \<open>kw\<close> up to the case of letters.\<close>

definition occurs_in :: "string \<Rightarrow> string \<Rightarrow> bool" where
  "occurs_in kw s = (\<exists>before mid after. s = before @ mid @ after \<and> lower mid = lower kw)"


section \<open>The eating detector\<close>

lemma and_then_Inr: "and_then (Inr x) f = f x"
  by (simp add: and_then_def)

lemma and_then_Inl: "and_then (Inl e) f = Inl e"
  by (simp add: and_then_def)

lemma float_features_empty: "float_features f = Map.empty \<longleftrightarrow> f = Map.empty"
  by (auto simp: float_features_def fun_eq_iff)

lemma dict_get_float_features:
  "dict_get (float_features f) k (PyFloat d) = PyFloat (dict_get f k d)"
  by (simp add: dict_get_def float_features_def split: option.splits)

lemma py_between_float:
  "py_between lo (PyFloat v) hi = Inr (float_gt_num v lo \<and> float_lt_num v hi)"
  by (simp add: py_between_def)

lemma detect_eating_try_float:
  "detect_eating_try audio_processor (float_features f) =
     Inr (satisfied_weights f \<ge> 0.6, satisfied_weights f)"
  by (simp add: detect_eating_try_def dict_get_float_features py_between_float and_then_Inr
      audio_processor_def satisfied_weights_def append_if_def)

lemma detect_eating_float:
  "detect_eating audio_processor (float_features f) =
     (satisfied_weights f \<ge> 0.6, satisfied_weights f)"
proof (cases "f = Map.empty")
  case True
  then show ?thesis
    by (simp add: detect_eating_def float_features_empty satisfied_weights_def dict_get_def)
next
  case False
  then show ?thesis
    by (simp add: detect_eating_def float_features_empty detect_eating_try_float)
qed

lemma midpoint: "satisfied_weights midpoint_features = 1"
  by (simp add: satisfied_weights_def midpoint_features_def dict_get_def)

text \<open>
  Claim C2. For every non-empty feature mapping, the confidence that eating detection
  returns is the sum of the weights of exactly the satisfied predicates (0.3 for
  \<open>0.05 < zcr_mean < 0.25\<close>, 0.3 for \<open>rms_mean > 0.02\<close>, 0.2 for
  \<open>spectral_centroid > 1000\<close>, 0.2 for \<open>spectral_rolloff > 2000\<close>), and eating is
  detected exactly when that sum is at least 0.6. At the midpoint features the confidence
  is 1 and eating is detected.
\<close>

theorem eating_confidence_is_sum_of_satisfied_weights:
  "(f \<noteq> Map.empty \<longrightarrow>
      snd (detect_eating audio_processor (float_features f)) = satisfied_weights f
      \<and> (fst (detect_eating audio_processor (float_features f))
           \<longleftrightarrow> satisfied_weights f \<ge> 0.6))
   \<and> detect_eating audio_processor (float_features midpoint_features) = (True, 1)"
  by (simp add: detect_eating_float midpoint)


theorem eating_confidence_witness:
  "[''rms_mean'' \<mapsto> Fin 0.05] \<noteq> Map.empty
   \<and> detect_eating audio_processor (float_features [''rms_mean'' \<mapsto> Fin 0.05]) = (False, 0.3)"
  using eating_confidence_is_sum_of_satisfied_weights [of "[''rms_mean'' \<mapsto> Fin 0.05]"]
  by (simp add: satisfied_weights_def dict_get_def prod_eq_iff)

lemma sum_list_append_if_cases:
  "sum_list (append_if c4 0.2 (append_if c3 0.2 (append_if c2 0.3 (append_if c1 0.3 []))))
     \<in> {0, 0.2, 0.3, 0.4, 0.5, 0.6, 0.7, 0.8, 1}"
  by (cases c1; cases c2; cases c3; cases c4; simp add: append_if_def)

lemma subset_sums: "set (map sum_list (subseqs [0.3, 0.3, 0.2, 0.2 :: real]))
    = {0, 0.2, 0.3, 0.4, 0.5, 0.6, 0.7, 0.8, 1}"
  by (simp add: insert_commute) 

lemma detect_eating_try_confidence:
  assumes "detect_eating_try self features = Inr r"
  shows "snd r \<in> {0, 0.2, 0.3, 0.4, 0.5, 0.6, 0.7, 0.8, 1}"
proof -
  from assms obtain c1 c2 c3 c4 where
    "snd r = sum_list (append_if c4 0.2 (append_if c3 0.2 (append_if c2 0.3 (append_if c1 0.3 []))))"
    by (auto simp: detect_eating_try_def and_then_def Let_def split: sum.splits)
  then show ?thesis
    using sum_list_append_if_cases [of c4 c3 c2 c1] by simp
qed

lemma detect_eating_confidence_values:
  "snd (detect_eating self features) \<in> {0, 0.2, 0.3, 0.4, 0.5, 0.6, 0.7, 0.8, 1}"
proof (cases "detect_eating_try self features")
  case (Inl e)
  then show ?thesis by (simp add: detect_eating_def)
next
  case (Inr r)
  then show ?thesis
    using detect_eating_try_confidence [OF Inr] by (simp add: detect_eating_def)
qed

text \<open>
  Claim C10. For every feature mapping, empty and malformed ones included, the
  confidence that eating detection returns is the sum of a sub-list of the weights
  0.3, 0.3, 0.2, 0.2, and so lies between 0 and 1, although nothing clamps it.
\<close>

theorem eating_confidence_in_subset_sums:
  "snd (detect_eating self features) \<in> set (map sum_list (subseqs [0.3, 0.3, 0.2, 0.2]))
   \<and> 0 \<le> snd (detect_eating self features)
   \<and> snd (detect_eating self features) \<le> 1"
proof -
  have v: "snd (detect_eating self features) \<in> {0, 0.2, 0.3, 0.4, 0.5, 0.6, 0.7, 0.8, 1}"
    by (rule detect_eating_confidence_values)
  then have "snd (detect_eating self features) \<in> set (map sum_list (subseqs [0.3, 0.3, 0.2, 0.2]))"
    unfolding subset_sums .
  moreover from v have "0 \<le> snd (detect_eating self features)" by auto
  moreover from v have "snd (detect_eating self features) \<le> 1" by auto
  ultimately show ?thesis by simp
qed

lemma detect_eating_empty: "detect_eating self Map.empty = (False, 0)"
  by (simp add: detect_eating_def)

text \<open>
  Claim C5. For every empty or malformed audio buffer, that is one that cannot be read as
  16-bit samples or whose feature extraction fails and yields the empty mapping, audio
  analysis returns a result with \<open>eating_detected = False\<close> and \<open>confidence = 0\<close>; it
  returns a result in every case, since \<open>analyze_audio\<close> has no exceptional value.
\<close>

theorem analyze_audio_no_signal:
  assumes "frombuffer audio_bytes = Inl e
           \<or> (\<exists>samples. frombuffer audio_bytes = Inr samples
                 \<and> extract_features librosa (normalize_pcm samples) (rate sample_rate) = Map.empty)"
  shows "eating_detected (analyze_audio librosa self audio_bytes sample_rate) = False
         \<and> confidence (analyze_audio librosa self audio_bytes sample_rate) = 0"
  using assms
  by (auto simp: analyze_audio_def analyze_audio_try_def and_then_def Let_def detect_eating_empty)

theorem analyze_audio_no_signal_witness:
  "frombuffer [1] = Inl ValueError
   \<and> eating_detected (analyze_audio librosa_raises audio_processor [1] None) = False
   \<and> confidence (analyze_audio librosa_raises audio_processor [1] None) = 0
   \<and> frombuffer [] = Inr []
   \<and> extract_features librosa_raises (normalize_pcm []) (rate None) = Map.empty
   \<and> eating_detected (analyze_audio librosa_raises audio_processor [] None) = False
   \<and> confidence (analyze_audio librosa_raises audio_processor [] None) = 0"
proof -
  have odd: "frombuffer [1] = Inl ValueError" by simp
  have none: "frombuffer [] = Inr []
      \<and> extract_features librosa_raises (normalize_pcm []) (rate None) = Map.empty"
    by (simp add: extract_features_def librosa_raises_def)
  from odd have h1: "frombuffer [1] = Inl ValueError
      \<or> (\<exists>samples. frombuffer [1] = Inr samples
            \<and> extract_features librosa_raises (normalize_pcm samples) (rate None) = Map.empty)"
    by simp
  from none have h2: "frombuffer [] = Inl ValueError
      \<or> (\<exists>samples. frombuffer [] = Inr samples
            \<and> extract_features librosa_raises (normalize_pcm samples) (rate None) = Map.empty)"
    by simp
  show ?thesis
    using odd none analyze_audio_no_signal [OF h1, of audio_processor]
      analyze_audio_no_signal [OF h2, of audio_processor]
    by simp
qed


section \<open>The feedback policy\<close>

lemma total_seconds_ge:
  "(real_of_int n \<le> total_seconds td) \<longleftrightarrow> seconds n \<le> td"
proof -
  have "(real_of_int n \<le> real_of_int td / 1000000)
          \<longleftrightarrow> (real_of_int n * 1000000 \<le> real_of_int td)"
    by (simp add: pos_le_divide_eq)
  also have "\<dots> \<longleftrightarrow> (real_of_int (n * 1000000) \<le> real_of_int td)"
    by simp
  also have "\<dots> \<longleftrightarrow> n * 1000000 \<le> td"
    by (rule of_int_le_iff)
  finally show ?thesis
    by (simp add: total_seconds_def seconds_def)
qed

lemma can_send_feedback_none:
  "lookup uid = Inr None \<Longrightarrow> can_send_feedback self lookup now uid"
  by (simp add: can_send_feedback_def can_send_feedback_try_def and_then_def)

lemma can_send_feedback_naive:
  "lookup uid = Inr (Some (Naive t)) \<Longrightarrow>
     can_send_feedback self lookup now uid \<longleftrightarrow> seconds (cooldown_seconds self) \<le> now - t"
  by (simp add: can_send_feedback_def can_send_feedback_try_def and_then_def total_seconds_ge)

lemma can_send_feedback_aware:
  "lookup uid = Inr (Some (Aware t)) \<Longrightarrow> can_send_feedback self lookup now uid"
  by (simp add: can_send_feedback_def can_send_feedback_try_def and_then_def)

lemma cooldown_seconds_default: "cooldown_seconds feedback_manager = 300"
  by (simp add: feedback_manager_def feedback_manager_init_def settings_def)

lemma db_stored_feedback: "db (stored_feedback t) uid = Inr (Some t)"
  by (simp add: db_def get_last_feedback_time_def stored_feedback_def)

text \<open>
  Claim C3. With \<open>cooldown_seconds = 300\<close> and \<open>force\<close> not set, sending is to be
  permitted when there is no prior feedback time, and otherwise exactly when at least 300
  seconds have passed, so that a feedback 100 seconds ago suppresses. The code does so
  for a naive timestamp (\<open>cooldown_naive_timestamps\<close> below), but not for the
  timezone-aware timestamp that the history lookup hands on from Firestore: subtracting
  it from the naive \<^verbatim>\<open>datetime.utcnow()\<close> raises inside the \<^verbatim>\<open>try\<close> block, and the
  \<^verbatim>\<open>except\<close> clause permits. With a feedback 100 seconds ago, stored aware, sending is
  permitted, directly and through the repository's \<^verbatim>\<open>Database\<close>; the same time stored
  naive suppresses.
\<close>

theorem cooldown_ignored_for_aware_timestamp:
  "cooldown_seconds feedback_manager = 300
   \<and> can_send_feedback feedback_manager
         (last_feedback_at (Aware (seconds 5000 - seconds 100))) (seconds 5000) ''u1''
   \<and> can_send_feedback feedback_manager
         (db (stored_feedback (Aware (seconds 5000 - seconds 100)))) (seconds 5000) ''u1''
   \<and> \<not> can_send_feedback feedback_manager
         (last_feedback_at (Naive (seconds 5000 - seconds 100))) (seconds 5000) ''u1''"
proof -
  have a: "can_send_feedback feedback_manager
      (last_feedback_at (Aware (seconds 5000 - seconds 100))) (seconds 5000) ''u1''"
    by (rule can_send_feedback_aware) (simp add: last_feedback_at_def)
  have b: "can_send_feedback feedback_manager
      (db (stored_feedback (Aware (seconds 5000 - seconds 100)))) (seconds 5000) ''u1''"
    by (rule can_send_feedback_aware) (rule db_stored_feedback)
  have "last_feedback_at (Naive (seconds 5000 - seconds 100)) ''u1''
      = Inr (Some (Naive (seconds 5000 - seconds 100)))"
    by (simp add: last_feedback_at_def)
  then have c: "\<not> can_send_feedback feedback_manager
      (last_feedback_at (Naive (seconds 5000 - seconds 100))) (seconds 5000) ''u1''"
    by (simp add: can_send_feedback_naive cooldown_seconds_default seconds_def)
  from a b c cooldown_seconds_default show ?thesis by simp
qed

lemma cooldown_naive_timestamps:
  assumes "cooldown_seconds self = 300"
  shows "(lookup uid = Inr None \<longrightarrow> can_send_feedback self lookup now uid)
     \<and> (lookup uid = Inr (Some (Naive t)) \<longrightarrow>
           (can_send_feedback self lookup now uid \<longleftrightarrow> 300 \<le> total_seconds (now - t)))"
  using assms
  by (auto simp: can_send_feedback_none can_send_feedback_naive total_seconds_ge [symmetric])

lemma send_feedback_rate_limited:
  "\<not> force \<Longrightarrow> \<not> can_send_feedback self lookup now uid \<Longrightarrow>
     send_feedback self lookup post now uid feedback_type force outbox = (False, outbox)"
  by (simp add: send_feedback_def)

lemma send_feedback_forced:
  "snd (send_feedback feedback_manager lookup post now uid feedback_type True outbox)
     = outbox @ [(uid, dict_get (messages feedback_manager) feedback_type
                         (the (messages feedback_manager ''slow_down'')))]"
  by (simp add: send_feedback_def feedback_manager_def feedback_manager_init_def Let_def)

text \<open>
  Claim C4. For every user, when the lookup of the last feedback time raises, the
  cooldown check permits sending. This holds for a lookup that raises into
  \<^verbatim>\<open>_can_send_feedback\<close>, and for the repository's \<^verbatim>\<open>Database\<close>, which turns a
  failed query into \<^verbatim>\<open>None\<close> itself.
\<close>

theorem cooldown_fails_open:
  "(lookup uid = Inl e \<longrightarrow> can_send_feedback self lookup now uid)
   \<and> (query uid = Inl e \<longrightarrow> can_send_feedback self (db query) now uid)"
  by (simp add: can_send_feedback_def can_send_feedback_try_def and_then_def db_def
      get_last_feedback_time_def)

theorem cooldown_fails_open_witness:
  "lookup_raises ''u1'' = Inl LibraryError
   \<and> can_send_feedback feedback_manager lookup_raises (seconds 5000) ''u1''
   \<and> query_raises ''u1'' = Inl LibraryError
   \<and> can_send_feedback feedback_manager (db query_raises) (seconds 5000) ''u1''"
  using cooldown_fails_open [of lookup_raises "''u1''" LibraryError feedback_manager "seconds 5000" query_raises]
  by (simp add: lookup_raises_def query_raises_def)


section \<open>The rushed-meal rule\<close>

lemma bit_length_le: "m < 2 ^ k \<Longrightarrow> bit_length m \<le> k"
proof (induction k arbitrary: m)
  case 0
  then show ?case by (simp add: bit_length.simps)
next
  case (Suc k)
  then have "m div 2 < 2 ^ k" by auto
  then have "bit_length (m div 2) \<le> k" by (rule Suc.IH)
  then show ?case by (subst bit_length.simps) simp
qed

lemma bit_length_power: "bit_length (2 ^ k) = Suc k"
proof (induction k)
  case 0
  show ?case by (simp add: bit_length.simps)
next
  case (Suc k)
  then show ?case by (subst bit_length.simps) simp
qed

lemma int_to_float_dvd:
  assumes d: "2 ^ (bit_length (nat \<bar>n\<bar>) - 53) dvd nat \<bar>n\<bar>"
    and b: "nat \<bar>n\<bar> < 2 ^ 1024"
  shows "int_to_float n = Inr (real_of_int n)"
proof -
  define m where "m = nat \<bar>n\<bar>"
  define e where "e = bit_length m - 53"
  from d have r: "m mod 2 ^ e = 0"
    by (simp add: m_def e_def mod_eq_0_iff_dvd)
  from d have q: "m div 2 ^ e * 2 ^ e = m"
    by (simp add: m_def e_def)
  have p: "(0::nat) < 2 ^ e" by simp
  have rounded: "(if 2 * (m mod 2 ^ e) > 2 ^ e \<or> (2 * (m mod 2 ^ e) = 2 ^ e \<and> odd (m div 2 ^ e))
                  then m div 2 ^ e + 1 else m div 2 ^ e) = m div 2 ^ e"
    using p unfolding r by simp
  from b have nb: "\<not> 2 ^ 1024 \<le> m" by (simp add: m_def)
  have s: "sgn n * int m = n" by (simp add: m_def mult_sgn_abs)
  have "int_to_float n =
      (if 2 ^ 1024 \<le> m then Inl OverflowError else Inr (real_of_int (sgn n * int m)))"
    unfolding int_to_float_def Let_def m_def [symmetric] e_def [symmetric] rounded q ..
  with nb s show ?thesis by (simp only: if_False)
qed

lemma int_to_float_exact:
  assumes "\<bar>n\<bar> \<le> 2 ^ 53"
  shows "int_to_float n = Inr (real_of_int n)"
proof (rule int_to_float_dvd)
  have "nat \<bar>n\<bar> \<le> 2 ^ 53" using assms by simp
  also have "\<dots> < (2::nat) ^ 1024" by (rule power_strict_increasing) simp_all
  finally show "nat \<bar>n\<bar> < 2 ^ 1024" .
  show "2 ^ (bit_length (nat \<bar>n\<bar>) - 53) dvd nat \<bar>n\<bar>"
  proof (cases "nat \<bar>n\<bar> < 2 ^ 53")
    case True
    then have "bit_length (nat \<bar>n\<bar>) - 53 = 0"
      using bit_length_le [of "nat \<bar>n\<bar>" 53] by simp
    then show ?thesis by simp
  next
    case False
    with assms have eq: "nat \<bar>n\<bar> = 2 ^ 53" by simp
    have "bit_length (nat \<bar>n\<bar>) = Suc 53"
      by (simp only: eq bit_length_power)
    then have "bit_length (nat \<bar>n\<bar>) - 53 = 1" by simp
    then show ?thesis by (simp add: eq)
  qed
qed

lemma int_to_float_900: "int_to_float 900 = Inr 900"
  using int_to_float_exact [of 900] by simp

lemma bit_length_between: "2 ^ k \<le> m \<Longrightarrow> m < 2 ^ Suc k \<Longrightarrow> bit_length m = Suc k"
proof (induction k arbitrary: m)
  case 0
  then have "m = 1" by simp
  then show ?case by (simp add: bit_length.simps)
next
  case (Suc k)
  from Suc.prems have lo: "2 ^ k \<le> m div 2" by auto
  from Suc.prems have hi: "m div 2 < 2 ^ Suc k" by auto
  from Suc.prems have "m \<noteq> 0" by auto
  then have "bit_length m = Suc (bit_length (m div 2))"
    by (subst bit_length.simps) simp
  with Suc.IH [OF lo hi] show ?case by simp
qed

lemma bit_length_2_53_plus_1: "bit_length 9007199254740993 = 54"
  using bit_length_between [of 53 9007199254740993] by simp

lemma int_to_float_rounds: "int_to_float 9007199254740993 = Inr 9007199254740992"
proof -
  have n: "nat \<bar>9007199254740993 :: int\<bar> = 9007199254740993" by simp
  have e: "bit_length 9007199254740993 - 53 = 1"
    by (simp add: bit_length_2_53_plus_1)
  show ?thesis
    unfolding int_to_float_def Let_def n e by simp
qed

text \<open>
  Claim C6, as amended. For every meal duration and every expected duration of
  magnitude at most \<open>2^53\<close> (900 when left out), the decision is returned and the meal
  is rushed exactly when \<open>meal_duration < expected_duration * 0.5\<close>. With an expected
  duration of 900, a meal of 400 seconds is rushed and one of 500 is not.
\<close>

theorem rushed_below_half_of_expected:
  "(\<bar>expected_duration\<bar> \<le> 2 ^ 53 \<longrightarrow>
      should_send_rushed_feedback meal_duration (Some expected_duration)
        = Inr (real_of_int meal_duration < real_of_int expected_duration * 0.5))
   \<and> should_send_rushed_feedback meal_duration None
        = Inr (real_of_int meal_duration < 900 * 0.5)
   \<and> should_send_rushed_feedback 400 (Some 900) = Inr True
   \<and> should_send_rushed_feedback 500 (Some 900) = Inr False
   \<and> should_send_rushed_feedback 400 None = Inr True
   \<and> should_send_rushed_feedback 500 None = Inr False"
proof -
  have g: "\<bar>expected_duration\<bar> \<le> 2 ^ 53 \<longrightarrow>
      should_send_rushed_feedback meal_duration (Some expected_duration)
        = Inr (real_of_int meal_duration < real_of_int expected_duration * 0.5)"
    by (simp add: should_send_rushed_feedback_def int_to_float_exact and_then_def)
  have d: "should_send_rushed_feedback m None = Inr (real_of_int m < 900 * 0.5)" for m
    by (simp add: should_send_rushed_feedback_def int_to_float_900 and_then_def)
  have s: "should_send_rushed_feedback m (Some 900) = Inr (real_of_int m < 900 * 0.5)" for m
    by (simp add: should_send_rushed_feedback_def int_to_float_900 and_then_def)
  show ?thesis
    using g d [of meal_duration] d [of 400] d [of 500] s [of 400] s [of 500] by simp
qed

theorem rushed_witness:
  "\<bar>1800 :: int\<bar> \<le> 2 ^ 53
   \<and> should_send_rushed_feedback 899 (Some 1800) = Inr True
   \<and> should_send_rushed_feedback 900 (Some 1800) = Inr False"
  using rushed_below_half_of_expected [of 1800 899]
    rushed_below_half_of_expected [of 1800 900]
  by simp

text \<open>
  Claim C6 as stated, for every expected duration, fails at a meal of \<open>2^52\<close> seconds
  with an expected duration of \<open>2^53 + 1\<close>: the conversion to a float rounds the
  expected duration to \<open>2^53\<close>, and the meal is not rushed although it is shorter than
  half of the expected duration.
\<close>

theorem rushed_rounding_counterexample:
  "should_send_rushed_feedback 4503599627370496 (Some 9007199254740993) = Inr False
   \<and> real_of_int 4503599627370496 < real_of_int 9007199254740993 * 0.5"
  by (simp add: should_send_rushed_feedback_def int_to_float_rounds and_then_def)

text \<open>An expected duration of \<open>2^1024\<close> does not convert to a float: the call raises.\<close>

lemma int_to_float_overflow: "int_to_float (2 ^ 1024) = Inl OverflowError"
  using bit_length_between [of 1024 "2 ^ 1024"]
  by (simp add: int_to_float_def Let_def)

lemma rushed_overflow: "should_send_rushed_feedback 0 (Some (2 ^ 1024)) = Inl OverflowError"
  using int_to_float_overflow
  by (simp add: should_send_rushed_feedback_def and_then_def)


section \<open>The reflection analysis\<close>

lemma startswith_iff: "startswith s kw \<longleftrightarrow> (\<exists>after. s = kw @ after)"
  by (induction s kw rule: startswith.induct) auto

lemma str_in_iff: "str_in kw s \<longleftrightarrow> (\<exists>before after. s = before @ kw @ after)"
proof (induction s)
  case Nil
  then show ?case by simp
next
  case (Cons c s)
  show ?case
  proof
    assume "str_in kw (c # s)"
    then consider "startswith (c # s) kw" | "str_in kw s" by auto
    then show "\<exists>before after. c # s = before @ kw @ after"
    proof cases
      case 1
      then obtain after where "c # s = kw @ after" by (auto simp: startswith_iff)
      then have "c # s = [] @ kw @ after" by simp
      then show ?thesis by blast
    next
      case 2
      with Cons.IH obtain before after where "s = before @ kw @ after" by blast
      then have "c # s = (c # before) @ kw @ after" by simp
      then show ?thesis by blast
    qed
  next
    assume "\<exists>before after. c # s = before @ kw @ after"
    then obtain before after where eq: "c # s = before @ kw @ after" by blast
    show "str_in kw (c # s)"
    proof (cases before)
      case Nil
      with eq have "startswith (c # s) kw" by (auto simp: startswith_iff)
      then show ?thesis by simp
    next
      case (Cons b bs)
      with eq have "s = bs @ kw @ after" by simp
      with Cons.IH have "str_in kw s" by blast
      then show ?thesis by simp
    qed
  qed
qed

lemma lower_append: "lower (a @ b) = lower a @ lower b"
  by (simp add: lower_def)

lemma occurs_in_iff: "occurs_in kw s \<longleftrightarrow> str_in (lower kw) (lower s)"
proof
  assume "occurs_in kw s"
  then obtain before mid after where "s = before @ mid @ after" "lower mid = lower kw"
    by (auto simp: occurs_in_def)
  then have "lower s = lower before @ lower kw @ lower after"
    by (simp add: lower_append)
  then show "str_in (lower kw) (lower s)"
    unfolding str_in_iff by blast
next
  assume "str_in (lower kw) (lower s)"
  then obtain b a where h: "map char_lower s = b @ (lower kw @ a)"
    unfolding str_in_iff lower_def by auto
  from h obtain us vs where s1: "s = us @ vs" and v: "lower kw @ a = map char_lower vs"
    by (metis map_eq_append_conv)
  from v [symmetric] obtain ms ws where s2: "vs = ms @ ws" and m: "lower kw = map char_lower ms"
    by (metis map_eq_append_conv)
  from s1 s2 m have "s = us @ ms @ ws \<and> lower ms = lower kw"
    by (simp add: lower_def)
  then show "occurs_in kw s"
    unfolding occurs_in_def by blast
qed

lemma reflection_keywords_lower:
  "kw \<in> set (reflection_keywords (sentiment_analyzer c)) \<Longrightarrow> lower kw = kw"
  by (auto simp: sentiment_analyzer_def lower_def char_lower_def)

lemma extract_keywords_occurs:
  "extract_keywords (sentiment_analyzer c) txt
     = filter (\<lambda>kw. occurs_in kw txt) (reflection_keywords (sentiment_analyzer c))"
  unfolding extract_keywords_def Let_def
  by (rule filter_cong) (simp_all add: occurs_in_iff reflection_keywords_lower)

lemma extract_keywords_example: "extract_keywords (sentiment_analyzer c) ''I was CALM but felt rushed''
     = [''felt'', ''was'', ''rushed'', ''calm'']"
  by (simp add: extract_keywords_def sentiment_analyzer_def lower_def char_lower_def)

lemma reflective_example: "text_is_reflective (sentiment_analyzer c) ''i feel stressed about that meal''"
  by (simp add: text_is_reflective_def sentiment_analyzer_def lower_def char_lower_def)

lemma not_reflective_example: "\<not> text_is_reflective (sentiment_analyzer c) ''hello''"
  by (simp add: text_is_reflective_def sentiment_analyzer_def lower_def char_lower_def)

text \<open>
  Claim C9. For every input text, the extracted keyword tags are exactly the trigger
  words that occur in the text as substrings up to the case of letters, listed in the
  order in which the trigger words are defined, not in the order in which they appear in
  the text: in \<open>I was CALM but felt rushed\<close> the words appear as was, calm, felt, rushed
  and are returned as felt, was, rushed, calm.
\<close>

theorem keywords_in_trigger_order:
  "extract_keywords (sentiment_analyzer c) txt
     = filter (\<lambda>kw. occurs_in kw txt) (reflection_keywords (sentiment_analyzer c))
   \<and> extract_keywords (sentiment_analyzer c) ''I was CALM but felt rushed''
     = [''felt'', ''was'', ''rushed'', ''calm'']"
proof
  show "extract_keywords (sentiment_analyzer c) txt
     = filter (\<lambda>kw. occurs_in kw txt) (reflection_keywords (sentiment_analyzer c))"
    by (rule extract_keywords_occurs)
  show "extract_keywords (sentiment_analyzer c) ''I was CALM but felt rushed''
     = [''felt'', ''was'', ''rushed'', ''calm'']"
    by (rule extract_keywords_example)
qed

lemma new_ReflectionAnalysis_empty:
  "new_ReflectionAnalysis as_float txt snt r kws (JObj [])
     = Inr \<lparr>reflection_text = txt, sentiment = snt, is_reflective = r,
            found_keywords = kws, tone_indicators = Map.empty\<rparr>"
  by (simp add: new_ReflectionAnalysis_def and_then_def)

lemma new_ReflectionAnalysis_fields:
  "new_ReflectionAnalysis as_float txt snt r kws tone = Inr a \<Longrightarrow>
     reflection_text a = txt \<and> sentiment a = snt \<and> is_reflective a = r \<and> found_keywords a = kws"
  by (auto simp: new_ReflectionAnalysis_def and_then_def split: sum.splits)

lemma analyze_reflection_not_reflective:
  "\<not> text_is_reflective self txt \<Longrightarrow>
     analyze_reflection as_float self txt sent = (default_analysis txt, sent)"
  by (simp add: analyze_reflection_def analyze_reflection_try_def
      new_ReflectionAnalysis_empty default_analysis_def)

lemma analyze_reflection_reflective:
  "text_is_reflective self txt \<Longrightarrow>
     analyze_reflection as_float self txt sent =
       (case new_ReflectionAnalysis as_float txt (fst (fst (analyze_with_llm self txt sent)))
               True (extract_keywords self txt) (snd (fst (analyze_with_llm self txt sent))) of
          Inl e \<Rightarrow> default_analysis txt
        | Inr a \<Rightarrow> a,
        sent @ [llm_request txt])"
  by (simp add: analyze_reflection_def analyze_reflection_try_def analyze_with_llm_def
      Let_def split: sum.splits prod.splits)

text \<open>
  Claim C7. Every analysis that \<open>analyze_reflection\<close> produces satisfies: when
  \<open>is_reflective\<close> is false, the sentiment is neutral, the keywords are empty and the
  tone indicators are empty.
\<close>

theorem not_reflective_is_default:
  "\<not> is_reflective (fst (analyze_reflection as_float self txt sent)) \<Longrightarrow>
     sentiment (fst (analyze_reflection as_float self txt sent)) = NEUTRAL
     \<and> found_keywords (fst (analyze_reflection as_float self txt sent)) = []
     \<and> tone_indicators (fst (analyze_reflection as_float self txt sent)) = Map.empty"
proof (cases "text_is_reflective self txt")
  case False
  then show ?thesis
    by (simp add: analyze_reflection_not_reflective default_analysis_def)
next
  case True
  assume n: "\<not> is_reflective (fst (analyze_reflection as_float self txt sent))"
  show ?thesis
  proof (cases "new_ReflectionAnalysis as_float txt (fst (fst (analyze_with_llm self txt sent)))
               True (extract_keywords self txt) (snd (fst (analyze_with_llm self txt sent)))")
    case (Inl e)
    with True show ?thesis
      by (simp add: analyze_reflection_reflective default_analysis_def)
  next
    case (Inr a)
    with True n new_ReflectionAnalysis_fields [OF Inr] show ?thesis
      by (simp add: analyze_reflection_reflective)
  qed
qed

theorem not_reflective_is_default_witness:
  "\<not> is_reflective (fst (analyze_reflection strict_float (sentiment_analyzer client_raises) ''hello'' []))
   \<and> sentiment (fst (analyze_reflection strict_float (sentiment_analyzer client_raises) ''hello'' []))
       = NEUTRAL
   \<and> found_keywords (fst (analyze_reflection strict_float (sentiment_analyzer client_raises) ''hello'' []))
       = []
   \<and> tone_indicators (fst (analyze_reflection strict_float (sentiment_analyzer client_raises) ''hello'' []))
       = Map.empty"
proof -
  have h: "\<not> is_reflective
      (fst (analyze_reflection strict_float (sentiment_analyzer client_raises) ''hello'' []))"
    by (simp add: analyze_reflection_not_reflective [OF not_reflective_example] default_analysis_def)
  show ?thesis
    using h not_reflective_is_default [OF h] by simp
qed

text \<open>
  Claim C8. For every input text, \<open>analyze_reflection\<close> sends exactly one request to the
  language model when the text passes the keyword test for reflective intent, and none
  when it does not.
\<close>

theorem one_request_when_reflective:
  "(text_is_reflective self txt \<longrightarrow>
      snd (analyze_reflection as_float self txt sent) = sent @ [llm_request txt]
      \<and> length (snd (analyze_reflection as_float self txt sent)) = length sent + 1)
   \<and> (\<not> text_is_reflective self txt \<longrightarrow>
      snd (analyze_reflection as_float self txt sent) = sent)"
  by (simp add: analyze_reflection_not_reflective analyze_reflection_reflective)

theorem one_request_witness:
  "text_is_reflective (sentiment_analyzer client_raises) ''i feel stressed about that meal''
   \<and> snd (analyze_reflection strict_float (sentiment_analyzer client_raises)
            ''i feel stressed about that meal'' [])
       = [llm_request ''i feel stressed about that meal'']
   \<and> \<not> text_is_reflective (sentiment_analyzer client_raises) ''hello''
   \<and> snd (analyze_reflection strict_float (sentiment_analyzer client_raises) ''hello'' []) = []"
  using reflective_example [of client_raises] not_reflective_example [of client_raises]
    one_request_when_reflective [of "sentiment_analyzer client_raises"
      "''i feel stressed about that meal''" strict_float "[]"]
    one_request_when_reflective [of "sentiment_analyzer client_raises" "''hello''" strict_float "[]"]
  by simp

lemma analyze_with_llm_raises:
  "analyze_with_llm_try self txt = Inl e \<Longrightarrow>
     analyze_with_llm self txt sent = ((NEUTRAL, JObj []), sent @ [llm_request txt])"
  by (simp add: analyze_with_llm_def)

lemma analyze_with_llm_returns:
  "analyze_with_llm_try self txt = Inr r \<Longrightarrow>
     analyze_with_llm self txt sent = (r, sent @ [llm_request txt])"
  by (simp add: analyze_with_llm_def)

lemma new_ReflectionAnalysis_invalid:
  "validate_tone as_float tone = Inl v \<Longrightarrow>
     new_ReflectionAnalysis as_float txt snt r kws tone = Inl v"
  by (simp add: new_ReflectionAnalysis_def and_then_def)

lemma client_raises_try:
  "analyze_with_llm_try (sentiment_analyzer client_raises) txt = Inl LibraryError"
  by (simp add: analyze_with_llm_try_def sentiment_analyzer_def client_raises_def and_then_def)

lemma client_bad_tone_try:
  "analyze_with_llm_try (sentiment_analyzer client_bad_tone) txt = Inr (CALM, JStr ''high'')"
  by (simp add: analyze_with_llm_try_def sentiment_analyzer_def client_bad_tone_def and_then_def
      dict_get_def lower_def char_lower_def)

text \<open>
  Claim C1, as amended. For every reflective input text: when the language-model call
  fails inside \<^verbatim>\<open>_analyze_with_llm\<close> (the request or the parsing of its reply raises,
  the reply is not a JSON object, or its sentiment is not a string), \<open>analyze_reflection\<close>
  returns the neutral sentiment and empty tone indicators, with \<open>is_reflective\<close> true and
  the keywords extracted from the text; when the reply is parsed but its tone indicators
  are not a valid mapping to floats, \<open>analyze_reflection\<close> returns the all-default
  analysis, with \<open>is_reflective\<close> false, neutral sentiment, no keywords and no tone
  indicators.
\<close>

theorem llm_failure_analysis:
  assumes "text_is_reflective self txt"
  shows "(analyze_with_llm_try self txt = Inl e \<longrightarrow>
            fst (analyze_reflection as_float self txt sent) =
              \<lparr>reflection_text = txt, sentiment = NEUTRAL, is_reflective = True,
               found_keywords = extract_keywords self txt, tone_indicators = Map.empty\<rparr>)
       \<and> (analyze_with_llm_try self txt = Inr (snt, tone)
            \<and> validate_tone as_float tone = Inl v \<longrightarrow>
            fst (analyze_reflection as_float self txt sent) = default_analysis txt)"
proof (intro conjI impI)
  assume "analyze_with_llm_try self txt = Inl e"
  with assms show "fst (analyze_reflection as_float self txt sent) =
      \<lparr>reflection_text = txt, sentiment = NEUTRAL, is_reflective = True,
       found_keywords = extract_keywords self txt, tone_indicators = Map.empty\<rparr>"
    by (simp add: analyze_reflection_reflective analyze_with_llm_raises
        new_ReflectionAnalysis_empty)
next
  assume h: "analyze_with_llm_try self txt = Inr (snt, tone)
      \<and> validate_tone as_float tone = Inl v"
  then have r: "analyze_with_llm self txt sent = ((snt, tone), sent @ [llm_request txt])"
    by (simp add: analyze_with_llm_returns)
  from h have "new_ReflectionAnalysis as_float txt snt True (extract_keywords self txt) tone = Inl v"
    by (simp add: new_ReflectionAnalysis_invalid)
  with assms r show "fst (analyze_reflection as_float self txt sent) = default_analysis txt"
    by (simp add: analyze_reflection_reflective)
qed

lemma feel_stressed_reflective:
  "text_is_reflective (sentiment_analyzer c) ''I feel stressed''"
  by (simp add: text_is_reflective_def sentiment_analyzer_def lower_def char_lower_def)

lemma feel_stressed_keywords:
  "extract_keywords (sentiment_analyzer c) ''I feel stressed'' = [''feel'', ''stressed'']"
  by (simp add: extract_keywords_def sentiment_analyzer_def lower_def char_lower_def)

theorem llm_failure_analysis_witness:
  "text_is_reflective (sentiment_analyzer client_raises) ''I feel stressed''
   \<and> analyze_with_llm_try (sentiment_analyzer client_raises) ''I feel stressed'' = Inl LibraryError
   \<and> fst (analyze_reflection strict_float (sentiment_analyzer client_raises) ''I feel stressed'' [])
       = \<lparr>reflection_text = ''I feel stressed'', sentiment = NEUTRAL, is_reflective = True,
          found_keywords = [''feel'', ''stressed''], tone_indicators = Map.empty\<rparr>
   \<and> text_is_reflective (sentiment_analyzer client_bad_tone) ''I feel stressed''
   \<and> analyze_with_llm_try (sentiment_analyzer client_bad_tone) ''I feel stressed''
       = Inr (CALM, JStr ''high'')
   \<and> validate_tone strict_float (JStr ''high'') = Inl ValidationError
   \<and> fst (analyze_reflection strict_float (sentiment_analyzer client_bad_tone) ''I feel stressed'' [])
       = default_analysis ''I feel stressed''"
proof -
  have v: "validate_tone strict_float (JStr ''high'') = Inl ValidationError"
    by simp
  show ?thesis
    using feel_stressed_reflective [of client_raises] feel_stressed_reflective [of client_bad_tone]
      client_raises_try [of "''I feel stressed''"] client_bad_tone_try [of "''I feel stressed''"] v
      llm_failure_analysis [of "sentiment_analyzer client_raises" "''I feel stressed''"
        LibraryError strict_float "[]" CALM "JStr ''high''" ValidationError]
      llm_failure_analysis [of "sentiment_analyzer client_bad_tone" "''I feel stressed''"
        LibraryError strict_float "[]" CALM "JStr ''high''" ValidationError]
    by (simp add: feel_stressed_keywords)
qed

text \<open>
  Claim C1 as stated, that every failed language-model call gives the all-default
  analysis, fails for the text \<open>I feel stressed\<close> with a client that raises: the analysis
  keeps \<open>is_reflective\<close> true and the keywords feel and stressed.
\<close>

theorem llm_failure_not_default_counterexample:
  "client (sentiment_analyzer client_raises) (llm_request ''I feel stressed'') = Inl LibraryError
   \<and> text_is_reflective (sentiment_analyzer client_raises) ''I feel stressed''
   \<and> is_reflective
       (fst (analyze_reflection strict_float (sentiment_analyzer client_raises) ''I feel stressed'' []))
   \<and> found_keywords
       (fst (analyze_reflection strict_float (sentiment_analyzer client_raises) ''I feel stressed'' []))
       = [''feel'', ''stressed'']
   \<and> fst (analyze_reflection strict_float (sentiment_analyzer client_raises) ''I feel stressed'' [])
       \<noteq> default_analysis ''I feel stressed''"
proof -
  have r: "text_is_reflective (sentiment_analyzer client_raises) ''I feel stressed''"
    by (rule feel_stressed_reflective)
  have c: "client (sentiment_analyzer client_raises) (llm_request ''I feel stressed'')
             = Inl LibraryError"
    by (simp add: sentiment_analyzer_def client_raises_def)
  have a: "fst (analyze_reflection strict_float (sentiment_analyzer client_raises)
                  ''I feel stressed'' [])
       = \<lparr>reflection_text = ''I feel stressed'', sentiment = NEUTRAL, is_reflective = True,
          found_keywords = [''feel'', ''stressed''], tone_indicators = Map.empty\<rparr>"
    using r
    by (simp add: analyze_reflection_reflective analyze_with_llm_raises [OF client_raises_try]
        new_ReflectionAnalysis_empty feel_stressed_keywords)
  show ?thesis
    using r c by (simp add: a default_analysis_def)
qed

end
